theory Spec2Isabelle
  imports Main
begin

section \<open>The chat room's WebSocket handlers (src/app.py)\<close>

text \<open>
  The server keeps one piece of mutable state, the module-level dictionary
  \<^verbatim>\<open>connected_users = {}  # {sid: username}\<close>, and reacts to six Socket.IO events.
  Each handler is modelled as a function from the dictionary before the event to an
  \<open>outcome\<close>: the dictionary after it, the \<^verbatim>\<open>emit\<close> calls it made (in order), the calls it
  made on the Base44 client (in order), and the exception that left the handler, if any.

  What lies outside the file is a parameter of the model:
  \<^item> the answers of the remote Base44 API (a \<open>base44\<close> record: what each client method
    returns or whether it raises \<^verbatim>\<open>requests.RequestException\<close>);
  \<^item> the clock (\<^verbatim>\<open>datetime.utcnow().isoformat()\<close>, a string);
  \<^item> \<^verbatim>\<open>request.sid\<close>, the identifier of the connection whose event is handled;
  \<^item> the set of connections the transport holds, against which a broadcast is resolved.

  Inbound payloads are dictionaries with string keys and string values, as the page's
  script sends them (\<^verbatim>\<open>{ username }\<close>, \<^verbatim>\<open>{ message: messageText }\<close>). The \<^verbatim>\<open>print\<close> calls
  are left out. The two \<^verbatim>\<open>try\<close> statements that the file writes with braces
  (\<^verbatim>\<open>try {\<close> in \<^verbatim>\<open>check_username\<close> and \<^verbatim>\<open>handle_user_registration\<close>) are read as the
  Python \<^verbatim>\<open>try: ... except ...:\<close> they stand for.
\<close>

subsection \<open>Python dictionaries, in insertion order\<close>

text \<open>
  A \<^verbatim>\<open>dict\<close> keeps its keys in insertion order; assigning to a key that is present
  replaces the value where it stands, assigning to a new key appends.
\<close>

fun dict_get :: "('k \<times> 'v) list \<Rightarrow> 'k \<Rightarrow> 'v option" where
  "dict_get [] k = None"
| "dict_get ((k', v') # d) k = (if k' = k then Some v' else dict_get d k)"

fun dict_setitem :: "('k \<times> 'v) list \<Rightarrow> 'k \<Rightarrow> 'v \<Rightarrow> ('k \<times> 'v) list" where
  "dict_setitem [] k v = [(k, v)]"
| "dict_setitem ((k', v') # d) k v =
     (if k' = k then (k, v) # d else (k', v') # dict_setitem d k v)"

fun dict_delitem :: "('k \<times> 'v) list \<Rightarrow> 'k \<Rightarrow> ('k \<times> 'v) list" where
  "dict_delitem [] k = []"
| "dict_delitem ((k', v') # d) k = (if k' = k then d else (k', v') # dict_delitem d k)"

text \<open>\<^verbatim>\<open>d.pop(k, None)\<close>: the value (or \<^verbatim>\<open>None\<close>) and the dictionary without the key.\<close>

definition dict_pop :: "('k \<times> 'v) list \<Rightarrow> 'k \<Rightarrow> 'v option \<times> ('k \<times> 'v) list" where
  "dict_pop d k = (dict_get d k, dict_delitem d k)"

text \<open>\<^verbatim>\<open>list(d.values())\<close>.\<close>

definition dict_values :: "('k \<times> 'v) list \<Rightarrow> 'v list" where
  "dict_values d = map snd d"

definition dict_keys :: "('k \<times> 'v) list \<Rightarrow> 'k list" where
  "dict_keys d = map fst d"

text \<open>
  The truth value Python gives to the result of \<^verbatim>\<open>connected_users.get(sid)\<close> in
  \<^verbatim>\<open>if username:\<close>: \<^verbatim>\<open>None\<close> and the empty string are false.
\<close>

fun truthy :: "string option \<Rightarrow> bool" where
  "truthy None = False"
| "truthy (Some s) = (s \<noteq> [])"

subsection \<open>Values, emissions, the Base44 client\<close>

datatype json =
    JNull
  | JBool bool
  | JNum int
  | JStr string
  | JList "json list"
  | JObj "(string \<times> json) list"

type_synonym sid = string

type_synonym users = "(sid \<times> string) list"

text \<open>
  One call of Flask-SocketIO's \<^verbatim>\<open>emit(event, data, broadcast=False, include_self=True)\<close>.
  \<open>payload\<close> is \<open>None\<close> when the call passes no data (\<^verbatim>\<open>emit('hide_typing', ...)\<close>).
\<close>

record emission =
  event :: string
  payload :: "json option"
  broadcast :: bool
  include_self :: bool

definition emit :: "string \<Rightarrow> json option \<Rightarrow> bool \<Rightarrow> bool \<Rightarrow> emission" where
  "emit ev d bc incl = \<lparr>event = ev, payload = d, broadcast = bc, include_self = incl\<rparr>"

text \<open>
  The connections an emission is addressed to, when the handler runs for connection
  \<open>me\<close> and the transport holds the connections \<open>room\<close>: without \<^verbatim>\<open>broadcast\<close> the
  caller alone; with it every connection of the transport, the caller among them
  unless \<^verbatim>\<open>include_self=False\<close>. (The behaviour of Flask-SocketIO's \<^verbatim>\<open>emit\<close>, which is
  a library the file imports.)
\<close>

definition recipients :: "sid set \<Rightarrow> sid \<Rightarrow> emission \<Rightarrow> sid set" where
  "recipients room me e =
     (if broadcast e then (if include_self e then room else room - {me}) else {me})"

text \<open>
  A call on the Base44 client either returns the decoded response or raises
  \<^verbatim>\<open>requests.RequestException\<close> (from \<^verbatim>\<open>requests.get\<close>/\<^verbatim>\<open>post\<close> or \<^verbatim>\<open>raise_for_status\<close>).
\<close>

datatype 'a response = Returned 'a | RequestException

record base44 =
  get_messages :: "json response"
  post_message :: "string \<Rightarrow> string \<Rightarrow> json response"
  is_username_taken :: "string \<Rightarrow> bool response"

datatype store_call =
    GetMessages
  | PostMessage string string
  | IsUsernameTaken string

datatype exn = KeyError string

record outcome =
  connected_users :: users
  emitted :: "emission list"
  calls :: "store_call list"
  raised :: "exn option"

definition system_message :: "string \<Rightarrow> json" where
  "system_message text = JObj [(''message'', JStr text), (''type'', JStr ''system'')]"

definition user_list :: "users \<Rightarrow> json" where
  "user_list cu = JList (map JStr (dict_values cu))"

subsection \<open>The handlers\<close>

text \<open>\<^verbatim>\<open>@socketio.on('connect')\<close>: prints, nothing else.\<close>

definition handle_connect :: "sid \<Rightarrow> users \<Rightarrow> outcome" where
  "handle_connect sid cu = \<lparr>connected_users = cu, emitted = [], calls = [], raised = None\<rparr>"

text \<open>
  \<^verbatim>\<open>@socketio.on('register_user')\<close>. \<^verbatim>\<open>data['username']\<close> raises \<^verbatim>\<open>KeyError\<close> on a payload
  without the key, before anything else has happened. Otherwise the entry of
  \<^verbatim>\<open>request.sid\<close> is written, the join notice and the user list are broadcast, and the
  history (the empty list when fetching it raises) is sent to the caller.

  Lines 274 to 281 are embedded as they stand. Lines 284 to 287 are written
  \<^verbatim>\<open>try {\<close> ... \<^verbatim>\<open>} except requests.RequestException as e:\<close>, which Python does not accept
  (the module does not compile as written). The last step of the definition, from
  \<^verbatim>\<open>get_messages\<close> on, is the \<^verbatim>\<open>try: ... except ...:\<close> that this text stands for: it is
  the intended behaviour, not what the file as written does.
\<close>

definition handle_user_registration ::
  "base44 \<Rightarrow> sid \<Rightarrow> (string \<rightharpoonup> string) \<Rightarrow> users \<Rightarrow> outcome" where
  "handle_user_registration b sid data cu =
     (case data ''username'' of
        None \<Rightarrow>
          \<lparr>connected_users = cu, emitted = [], calls = [],
           raised = Some (KeyError ''username'')\<rparr>
      | Some username \<Rightarrow>
          (let cu' = dict_setitem cu sid username;
               joined = emit ''receive_message''
                 (Some (system_message (username @ '' has joined the chat.''))) True True;
               listing = emit ''update_user_list'' (Some (user_list cu')) True True
           in (case get_messages b of
                 Returned history \<Rightarrow>
                   \<lparr>connected_users = cu',
                    emitted = [joined, listing,
                      emit ''registration_success''
                        (Some (JObj [(''history'', history)])) False True],
                    calls = [GetMessages], raised = None\<rparr>
               | RequestException \<Rightarrow>
                   \<lparr>connected_users = cu',
                    emitted = [joined, listing,
                      emit ''registration_success''
                        (Some (JObj [(''history'', JList [])])) False True],
                    calls = [GetMessages], raised = None\<rparr>)))"

text \<open>
  \<^verbatim>\<open>@socketio.on('new_message')\<close>. \<open>now\<close> is \<^verbatim>\<open>datetime.utcnow().isoformat()\<close>. The lookup
  \<^verbatim>\<open>data['message']\<close> stands before the \<^verbatim>\<open>try\<close>, so its \<^verbatim>\<open>KeyError\<close> leaves the handler.
\<close>

definition handle_new_message ::
  "base44 \<Rightarrow> string \<Rightarrow> sid \<Rightarrow> (string \<rightharpoonup> string) \<Rightarrow> users \<Rightarrow> outcome" where
  "handle_new_message b now sid data cu =
     (let username = dict_get cu sid in
      if truthy username then
        (case data ''message'' of
           None \<Rightarrow>
             \<lparr>connected_users = cu, emitted = [], calls = [],
              raised = Some (KeyError ''message'')\<rparr>
         | Some message_text \<Rightarrow>
             (case post_message b (the username) message_text of
                Returned r \<Rightarrow>
                  \<lparr>connected_users = cu,
                   emitted = [emit ''receive_message''
                     (Some (JObj [(''username'', JStr (the username)),
                                  (''message'', JStr message_text),
                                  (''timestamp'', JStr (now @ ''Z''))])) True True],
                   calls = [PostMessage (the username) message_text], raised = None\<rparr>
              | RequestException \<Rightarrow>
                  \<lparr>connected_users = cu,
                   emitted = [emit ''receive_message''
                     (Some (system_message ''Error: Could not send message.'')) False True],
                   calls = [PostMessage (the username) message_text], raised = None\<rparr>))
      else \<lparr>connected_users = cu, emitted = [], calls = [], raised = None\<rparr>)"

text \<open>\<^verbatim>\<open>@socketio.on('typing')\<close>.\<close>

definition handle_typing :: "sid \<Rightarrow> users \<Rightarrow> outcome" where
  "handle_typing sid cu =
     (let username = dict_get cu sid in
      if truthy username then
        \<lparr>connected_users = cu,
         emitted = [emit ''show_typing''
           (Some (JObj [(''username'', JStr (the username))])) True False],
         calls = [], raised = None\<rparr>
      else \<lparr>connected_users = cu, emitted = [], calls = [], raised = None\<rparr>)"

text \<open>\<^verbatim>\<open>@socketio.on('stop_typing')\<close>: one line, which reads no state.\<close>

definition handle_stop_typing :: "sid \<Rightarrow> users \<Rightarrow> outcome" where
  "handle_stop_typing sid cu =
     \<lparr>connected_users = cu, emitted = [emit ''hide_typing'' None True False],
      calls = [], raised = None\<rparr>"

text \<open>
  \<^verbatim>\<open>@socketio.on('disconnect')\<close>. The entry is popped first; the notice and the list
  (computed after the pop) go out only when the popped name is true.
\<close>

definition handle_disconnect :: "sid \<Rightarrow> users \<Rightarrow> outcome" where
  "handle_disconnect sid cu =
     (case dict_pop cu sid of (username, cu') \<Rightarrow>
        if truthy username then
          \<lparr>connected_users = cu',
           emitted = [emit ''receive_message''
               (Some (system_message (the username @ '' has left the chat.''))) True True,
             emit ''update_user_list'' (Some (user_list cu')) True True],
           calls = [], raised = None\<rparr>
        else \<lparr>connected_users = cu', emitted = [], calls = [], raised = None\<rparr>)"

text \<open>
  The HTTP route \<^verbatim>\<open>GET /api/check_username\<close>, the one caller of
  \<^verbatim>\<open>is_username_taken\<close>: the body and the status of the reply, and the calls made.
  \<open>arg\<close> is \<^verbatim>\<open>request.args.get('username')\<close>. The text of the error in the 500 reply is
  \<^verbatim>\<open>str(e)\<close>, which the remote failure determines; it is the parameter \<open>err\<close>.
  Line 259 is written \<^verbatim>\<open>try {\<close>, which Python does not accept; the definition is the
  \<^verbatim>\<open>try: ... except ...:\<close> that lines 259 to 263 stand for.
\<close>

definition check_username ::
  "base44 \<Rightarrow> string \<Rightarrow> string option \<Rightarrow> (json \<times> nat) \<times> store_call list" where
  "check_username b err arg =
     (if \<not> truthy arg then
        ((JObj [(''error'', JStr ''Username parameter is required'')], 400), [])
      else
        (case is_username_taken b (the arg) of
           Returned is_taken \<Rightarrow>
             ((JObj [(''is_taken'', JBool is_taken)], 200), [IsUsernameTaken (the arg)])
         | RequestException \<Rightarrow>
             ((JObj [(''error'', JStr err)], 500), [IsUsernameTaken (the arg)])))"

subsection \<open>Sequences of events\<close>

datatype inbound =
    Connect sid
  | RegisterUser sid "string \<rightharpoonup> string"
  | NewMessage sid "string \<rightharpoonup> string"
  | Typing sid
  | StopTyping sid
  | Disconnect sid

text \<open>What the outside world answers while one event is handled.\<close>

record env =
  store :: base44
  utcnow :: string

fun dispatch :: "env \<Rightarrow> inbound \<Rightarrow> users \<Rightarrow> outcome" where
  "dispatch w (Connect sid) cu = handle_connect sid cu"
| "dispatch w (RegisterUser sid data) cu = handle_user_registration (store w) sid data cu"
| "dispatch w (NewMessage sid data) cu = handle_new_message (store w) (utcnow w) sid data cu"
| "dispatch w (Typing sid) cu = handle_typing sid cu"
| "dispatch w (StopTyping sid) cu = handle_stop_typing sid cu"
| "dispatch w (Disconnect sid) cu = handle_disconnect sid cu"

text \<open>
  The dictionary after a sequence of events, each with the world's answers during it.
  An exception that leaves a handler ends that event only; the dictionary stays as the
  handler left it.
\<close>

fun run :: "(env \<times> inbound) list \<Rightarrow> users \<Rightarrow> users" where
  "run [] cu = cu"
| "run ((w, ev) # evs) cu = run evs (connected_users (dispatch w ev cu))"

text \<open>The identifier of the connection an event comes from.\<close>

fun sender :: "inbound \<Rightarrow> sid" where
  "sender (Connect sid) = sid"
| "sender (RegisterUser sid data) = sid"
| "sender (NewMessage sid data) = sid"
| "sender (Typing sid) = sid"
| "sender (StopTyping sid) = sid"
| "sender (Disconnect sid) = sid"

subsection \<open>Example worlds\<close>

text \<open>A store that answers every call, and one whose every call raises.\<close>

definition store_up :: base44 where
  "store_up = \<lparr>get_messages = Returned (JList []),
               post_message = (\<lambda>u m. Returned (JObj [(''username'', JStr u), (''message'', JStr m)])),
               is_username_taken = (\<lambda>u. Returned False)\<rparr>"

definition store_down :: base44 where
  "store_down = \<lparr>get_messages = RequestException,
                 post_message = (\<lambda>u m. RequestException),
                 is_username_taken = (\<lambda>u. RequestException)\<rparr>"

text \<open>A store in which every name is recorded as taken.\<close>

definition store_all_taken :: base44 where
  "store_all_taken = \<lparr>get_messages = Returned (JList []),
                      post_message = (\<lambda>u m. Returned JNull),
                      is_username_taken = (\<lambda>u. Returned True)\<rparr>"

definition payload_username :: "string \<Rightarrow> (string \<rightharpoonup> string)" where
  "payload_username u = [''username'' \<mapsto> u]"

definition payload_message :: "string \<Rightarrow> (string \<rightharpoonup> string)" where
  "payload_message m = [''message'' \<mapsto> m]"

text \<open>A world in which the store answers, at a fixed time.\<close>

definition world_up :: env where
  "world_up = \<lparr>store = store_up, utcnow = ''2024-05-01T12:00:00''\<rparr>"

section \<open>Properties\<close>

subsection \<open>Dictionary lemmas\<close>

lemma dict_get_setitem:
  "dict_get (dict_setitem d k v) k' = (if k' = k then Some v else dict_get d k')"
  by (induction d) auto

lemma dict_get_None_iff: "dict_get d k = None \<longleftrightarrow> k \<notin> set (dict_keys d)"
  by (induction d k rule: dict_get.induct) (simp_all add: dict_keys_def)

lemma dict_keys_setitem:
  "dict_keys (dict_setitem d k v) =
     (if k \<in> set (dict_keys d) then dict_keys d else dict_keys d @ [k])"
  by (induction d k v rule: dict_setitem.induct) (simp_all add: dict_keys_def)

lemma dict_setitem_absent:
  "dict_get d k = None \<Longrightarrow> dict_setitem d k v = d @ [(k, v)]"
  by (induction d k v rule: dict_setitem.induct) (simp_all split: if_splits)

lemma distinct_setitem:
  "distinct (dict_keys d) \<Longrightarrow> distinct (dict_keys (dict_setitem d k v))"
  by (simp add: dict_keys_setitem)

lemma dict_keys_delitem: "dict_keys (dict_delitem d k) = remove1 k (dict_keys d)"
  by (induction d k rule: dict_delitem.induct) (simp_all add: dict_keys_def)

lemma distinct_delitem:
  "distinct (dict_keys d) \<Longrightarrow> distinct (dict_keys (dict_delitem d k))"
  by (simp add: dict_keys_delitem)

lemma dict_get_delitem_other:
  "k' \<noteq> k \<Longrightarrow> dict_get (dict_delitem d k) k' = dict_get d k'"
  by (induction d k rule: dict_delitem.induct) simp_all

lemma dict_get_delitem_same:
  "distinct (dict_keys d) \<Longrightarrow> dict_get (dict_delitem d k) k = None"
  by (simp add: dict_get_None_iff dict_keys_delitem)

lemma dict_delitem_absent: "dict_get d k = None \<Longrightarrow> dict_delitem d k = d"
  by (induction d k rule: dict_delitem.induct) (simp_all split: if_splits)

lemma dict_values_sessions:
  "distinct (dict_keys d) \<Longrightarrow> set (dict_values d) = {u. \<exists>c. dict_get d c = Some u}"
proof (induction d)
  case Nil
  then show ?case by (simp add: dict_values_def)
next
  case (Cons p d)
  obtain k v where p: "p = (k, v)" by (cases p)
  from Cons.prems have d: "distinct (dict_keys d)" and k: "dict_get d k = None"
    by (simp_all add: dict_keys_def p dict_get_None_iff)
  have "{u. \<exists>c. dict_get (p # d) c = Some u} = insert v {u. \<exists>c. dict_get d c = Some u}"
  proof (rule set_eqI)
    fix u
    show "u \<in> {u. \<exists>c. dict_get (p # d) c = Some u} \<longleftrightarrow>
          u \<in> insert v {u. \<exists>c. dict_get d c = Some u}"
    proof
      assume "u \<in> {u. \<exists>c. dict_get (p # d) c = Some u}"
      then obtain c where c: "dict_get (p # d) c = Some u" by blast
      show "u \<in> insert v {u. \<exists>c. dict_get d c = Some u}"
      proof (cases "k = c")
        case True
        with c show ?thesis by (simp add: p)
      next
        case False
        with c have "dict_get d c = Some u" by (simp add: p)
        then show ?thesis by blast
      qed
    next
      assume "u \<in> insert v {u. \<exists>c. dict_get d c = Some u}"
      then consider "u = v" | c where "dict_get d c = Some u" by blast
      then show "u \<in> {u. \<exists>c. dict_get (p # d) c = Some u}"
      proof cases
        case 1
        have "dict_get (p # d) k = Some u" by (simp add: p 1)
        then show ?thesis by blast
      next
        case 2
        with k have "k \<noteq> c" by auto
        with 2 have "dict_get (p # d) c = Some u" by (simp add: p)
        then show ?thesis by blast
      qed
    qed
  qed
  then show ?case using Cons.IH [OF d] by (simp add: dict_values_def p)
qed


lemma dict_values_count:
  assumes "distinct (dict_keys d)"
  shows "length (dict_values d) = card {c. dict_get d c \<noteq> None}"
proof -
  have "{c. dict_get d c \<noteq> None} = set (dict_keys d)"
    by (simp add: dict_get_None_iff)
  then show ?thesis
    using distinct_card [OF assms] by (simp add: dict_values_def dict_keys_def)
qed

subsection \<open>What each handler leaves in the dictionary\<close>

lemmas handler_defs =
  handle_connect_def handle_user_registration_def handle_new_message_def
  handle_typing_def handle_stop_typing_def handle_disconnect_def dict_pop_def Let_def

lemma users_connect: "connected_users (handle_connect sid cu) = cu"
  by (simp add: handle_connect_def)

lemma users_registration:
  "connected_users (handle_user_registration b sid data cu) =
     (case data ''username'' of None \<Rightarrow> cu | Some u \<Rightarrow> dict_setitem cu sid u)"
  by (simp add: handle_user_registration_def Let_def split: option.splits response.splits)

lemma users_new_message: "connected_users (handle_new_message b now sid data cu) = cu"
  by (simp add: handle_new_message_def Let_def split: option.splits response.splits)

lemma users_typing: "connected_users (handle_typing sid cu) = cu"
  by (simp add: handle_typing_def Let_def)

lemma users_stop_typing: "connected_users (handle_stop_typing sid cu) = cu"
  by (simp add: handle_stop_typing_def)

lemma users_disconnect: "connected_users (handle_disconnect sid cu) = dict_delitem cu sid"
  by (simp add: handle_disconnect_def dict_pop_def)

lemmas users_after =
  users_connect users_registration users_new_message users_typing users_stop_typing
  users_disconnect

lemma dispatch_distinct:
  assumes "distinct (dict_keys cu)"
  shows "distinct (dict_keys (connected_users (dispatch w ev cu)))"
  using assms
  by (cases ev) (simp_all add: users_after distinct_setitem distinct_delitem split: option.splits)

lemma run_distinct:
  "distinct (dict_keys cu) \<Longrightarrow> distinct (dict_keys (run evs cu))"
proof (induction evs arbitrary: cu)
  case Nil
  then show ?case by simp
next
  case (Cons p evs)
  obtain w ev where p: "p = (w, ev)" by (cases p)
  show ?case using Cons.IH [OF dispatch_distinct [OF Cons.prems]] by (simp add: p)
qed

lemma dispatch_user_list:
  assumes "e \<in> set (emitted (dispatch w ev cu))" and "event e = ''update_user_list''"
  shows "payload e = Some (user_list (connected_users (dispatch w ev cu)))"
proof (cases ev)
  case (RegisterUser sid data)
  then show ?thesis using assms
    by (auto simp: handle_user_registration_def Let_def emit_def
        split: option.splits response.splits)
next
  case (Disconnect sid)
  then show ?thesis using assms
    by (auto simp: handle_disconnect_def dict_pop_def emit_def split: if_splits)
next
  case (NewMessage sid data)
  then show ?thesis using assms
    by (auto simp: handle_new_message_def Let_def emit_def
        split: option.splits response.splits if_splits)
qed (use assms in \<open>auto simp: handler_defs emit_def split: if_splits\<close>)

lemmas world_defs =
  world_up_def store_up_def store_down_def store_all_taken_def payload_username_def
  payload_message_def

text \<open>The two notices differ whatever the names are.\<close>

lemma joined_not_left:
  "new @ '' has joined the chat.'' \<noteq> old @ '' has left the chat.''"
proof
  assume "new @ '' has joined the chat.'' = old @ '' has left the chat.''"
  then have "rev (new @ '' has joined the chat.'') = rev (old @ '' has left the chat.'')"
    by simp
  then show False by simp
qed

text \<open>
  The one place where the store is asked whether a name is taken is the HTTP route; its
  answer goes back to the page, which decides whether to send \<^verbatim>\<open>register_user\<close>.
\<close>

lemma check_username_reports:
  "u \<noteq> [] \<Longrightarrow> is_username_taken b u = Returned taken \<Longrightarrow>
   check_username b err (Some u)
     = ((JObj [(''is_taken'', JBool taken)], 200), [IsUsernameTaken u])"
  by (simp add: check_username_def)

subsection \<open>The claims\<close>

text \<open>
  C1, as the code has it. \<^verbatim>\<open>handle_user_registration\<close> never asks the store whether the
  name is taken: for every payload with a username, and whatever the store would answer
  about that name, the handler gives the same outcome; it binds the connection to the
  name, broadcasts the join notice and the user list to all, calls only
  \<^verbatim>\<open>get_messages\<close>, and raises nothing.
\<close>

theorem register_ignores_is_username_taken:
  assumes "data ''username'' = Some u"
  shows "handle_user_registration (b\<lparr>is_username_taken := t\<rparr>) sid data cu
           = handle_user_registration b sid data cu \<and>
         connected_users (handle_user_registration b sid data cu) = dict_setitem cu sid u \<and>
         take 2 (emitted (handle_user_registration b sid data cu))
           = [emit ''receive_message'' (Some (system_message (u @ '' has joined the chat.'')))
                True True,
              emit ''update_user_list'' (Some (user_list (dict_setitem cu sid u))) True True] \<and>
         calls (handle_user_registration b sid data cu) = [GetMessages] \<and>
         raised (handle_user_registration b sid data cu) = None"
  using assms
  by (simp add: handle_user_registration_def Let_def split: response.splits)

text \<open>C1, witness: connection c2 registers as alice next to c1 (bob).\<close>

theorem register_ignores_is_username_taken_witness:
  "payload_username ''alice'' ''username'' = Some ''alice'' \<and>
   handle_user_registration (store_up\<lparr>is_username_taken := is_username_taken store_all_taken\<rparr>)
       ''c2'' (payload_username ''alice'') [(''c1'', ''bob'')]
     = handle_user_registration store_up ''c2'' (payload_username ''alice'') [(''c1'', ''bob'')] \<and>
   connected_users (handle_user_registration store_up ''c2'' (payload_username ''alice'')
       [(''c1'', ''bob'')]) = [(''c1'', ''bob''), (''c2'', ''alice'')] \<and>
   calls (handle_user_registration store_up ''c2'' (payload_username ''alice'')
       [(''c1'', ''bob'')]) = [GetMessages]"
  using register_ignores_is_username_taken [where data = "payload_username ''alice''" and u = "''alice''"
      and b = store_up and t = "is_username_taken store_all_taken" and sid = "''c2''"
      and cu = "[(''c1'', ''bob'')]"]
  by (simp add: payload_username_def)

text \<open>
  C1, counterexample to the claim as stated: the store reports every name taken, alice
  is bound to c1, and c2 registers as alice. The registration goes through: the
  dictionary gains the entry and three events are emitted.
\<close>

theorem register_taken_name_counterexample:
  "is_username_taken store_all_taken ''alice'' = Returned True \<and>
   connected_users (handle_user_registration store_all_taken ''c2'' (payload_username ''alice'')
       [(''c1'', ''alice'')]) = [(''c1'', ''alice''), (''c2'', ''alice'')] \<and>
   emitted (handle_user_registration store_all_taken ''c2'' (payload_username ''alice'')
       [(''c1'', ''alice'')])
     = [emit ''receive_message'' (Some (system_message ''alice has joined the chat.'')) True True,
        emit ''update_user_list'' (Some (JList [JStr ''alice'', JStr ''alice''])) True True,
        emit ''registration_success'' (Some (JObj [(''history'', JList [])])) False True] \<and>
   raised (handle_user_registration store_all_taken ''c2'' (payload_username ''alice'')
       [(''c1'', ''alice'')]) = None"
  by (simp add: handler_defs world_defs dict_values_def user_list_def)

text \<open>
  C2, as the code has it. After every finite sequence of events from the empty
  dictionary: no connection has two entries; every \<^verbatim>\<open>update_user_list\<close> that the next
  event emits carries exactly the values of the dictionary as that event leaves it, in
  insertion order; the list has one entry for each connection with an entry; and its
  names are exactly the names of those connections. (Names may repeat, see the
  counterexample.)
\<close>

theorem user_list_tracks_sessions:
  "distinct (dict_keys (run evs [])) \<and>
   (\<forall>e \<in> set (emitted (dispatch w ev (run evs []))).
      event e = ''update_user_list'' \<longrightarrow>
      payload e = Some (user_list (connected_users (dispatch w ev (run evs []))))) \<and>
   length (dict_values (run evs [])) = card {c. dict_get (run evs []) c \<noteq> None} \<and>
   set (dict_values (run evs [])) = {u. \<exists>c. dict_get (run evs []) c = Some u}"
proof -
  have d: "distinct (dict_keys (run evs []))"
    by (rule run_distinct) (simp add: dict_keys_def)
  have "length (dict_values (run evs [])) = card {c. dict_get (run evs []) c \<noteq> None}"
    using dict_values_count [OF d] .
  then show ?thesis
    using d dispatch_user_list dict_values_sessions [OF d] by blast
qed

text \<open>C2, witness: c1 and c2 register as alice and bob, then c1 disconnects.\<close>

theorem user_list_tracks_sessions_witness:
  "run [(world_up, RegisterUser ''c1'' (payload_username ''alice'')),
        (world_up, RegisterUser ''c2'' (payload_username ''bob''))] []
     = [(''c1'', ''alice''), (''c2'', ''bob'')] \<and>
   distinct (dict_keys (run [(world_up, RegisterUser ''c1'' (payload_username ''alice'')),
        (world_up, RegisterUser ''c2'' (payload_username ''bob''))] [])) \<and>
   emitted (dispatch world_up (Disconnect ''c1'')
      (run [(world_up, RegisterUser ''c1'' (payload_username ''alice'')),
            (world_up, RegisterUser ''c2'' (payload_username ''bob''))] [])) ! 1
     = emit ''update_user_list'' (Some (JList [JStr ''bob''])) True True \<and>
   length (dict_values (run [(world_up, RegisterUser ''c1'' (payload_username ''alice'')),
        (world_up, RegisterUser ''c2'' (payload_username ''bob''))] [])) = 2 \<and>
   set (dict_values (run [(world_up, RegisterUser ''c1'' (payload_username ''alice'')),
        (world_up, RegisterUser ''c2'' (payload_username ''bob''))] []))
     = {u. \<exists>c. dict_get (run [(world_up, RegisterUser ''c1'' (payload_username ''alice'')),
        (world_up, RegisterUser ''c2'' (payload_username ''bob''))] []) c = Some u}"
  using user_list_tracks_sessions [of "[(world_up, RegisterUser ''c1'' (payload_username ''alice'')),
        (world_up, RegisterUser ''c2'' (payload_username ''bob''))]" world_up "Disconnect ''c1''"]
  by (simp add: handler_defs world_defs dict_keys_def dict_values_def user_list_def)

text \<open>
  C2, counterexample to the claim as stated: c1 and c2 both register as alice, starting
  from the empty dictionary. The user list sent is alice, alice, and the name alice has
  two live sessions.
\<close>

theorem user_list_duplicates_counterexample:
  "dict_values (run [(world_up, RegisterUser ''c1'' (payload_username ''alice'')),
        (world_up, RegisterUser ''c2'' (payload_username ''alice''))] [])
     = [''alice'', ''alice''] \<and>
   emitted (dispatch world_up (RegisterUser ''c2'' (payload_username ''alice''))
      (run [(world_up, RegisterUser ''c1'' (payload_username ''alice''))] [])) ! 1
     = emit ''update_user_list'' (Some (JList [JStr ''alice'', JStr ''alice''])) True True \<and>
   dict_get (run [(world_up, RegisterUser ''c1'' (payload_username ''alice'')),
        (world_up, RegisterUser ''c2'' (payload_username ''alice''))] []) ''c1'' = Some ''alice'' \<and>
   dict_get (run [(world_up, RegisterUser ''c1'' (payload_username ''alice'')),
        (world_up, RegisterUser ''c2'' (payload_username ''alice''))] []) ''c2'' = Some ''alice''"
  by (simp add: handler_defs world_defs dict_values_def user_list_def)

text \<open>
  C3, as the code has it. A \<^verbatim>\<open>register_user\<close> from a connection that is already bound
  overwrites its name with the new one, where the entry stands (the keys and their
  order are unchanged). The handler emits exactly three events: the join notice for the
  new name and the user list, to all, and \<^verbatim>\<open>registration_success\<close> with the history (the
  empty one when fetching it raises) to the caller. None of them is a leave notice for
  the old name, and nothing is raised.
\<close>

theorem register_rebinds_bound_connection:
  assumes "dict_get cu sid = Some old" and "data ''username'' = Some new"
  shows "connected_users (handle_user_registration b sid data cu) = dict_setitem cu sid new \<and>
         dict_get (connected_users (handle_user_registration b sid data cu)) sid = Some new \<and>
         dict_keys (connected_users (handle_user_registration b sid data cu)) = dict_keys cu \<and>
         emitted (handle_user_registration b sid data cu)
           = [emit ''receive_message'' (Some (system_message (new @ '' has joined the chat.'')))
                True True,
              emit ''update_user_list'' (Some (user_list (dict_setitem cu sid new))) True True,
              emit ''registration_success''
                (Some (JObj [(''history'',
                   (case get_messages b of Returned history \<Rightarrow> history
                    | RequestException \<Rightarrow> JList []))])) False True] \<and>
         (\<forall>e \<in> set (emitted (handle_user_registration b sid data cu)).
            payload e \<noteq> Some (system_message (old @ '' has left the chat.''))) \<and>
         raised (handle_user_registration b sid data cu) = None"
proof -
  from assms(1) have "sid \<in> set (dict_keys cu)"
    using dict_get_None_iff [of cu sid] by simp
  then show ?thesis using assms(2) joined_not_left [of new old]
    by (simp add: handle_user_registration_def Let_def dict_get_setitem dict_keys_setitem
        emit_def system_message_def user_list_def split: response.splits)
qed

text \<open>C3, witness: c1, bound as alice, registers as carol while the store is down.\<close>

theorem register_rebinds_bound_connection_witness:
  "dict_get [(''c1'', ''alice''), (''c2'', ''bob'')] ''c1'' = Some ''alice'' \<and>
   payload_username ''carol'' ''username'' = Some ''carol'' \<and>
   connected_users (handle_user_registration store_down ''c1'' (payload_username ''carol'')
       [(''c1'', ''alice''), (''c2'', ''bob'')]) = [(''c1'', ''carol''), (''c2'', ''bob'')] \<and>
   emitted (handle_user_registration store_down ''c1'' (payload_username ''carol'')
       [(''c1'', ''alice''), (''c2'', ''bob'')])
     = [emit ''receive_message'' (Some (system_message ''carol has joined the chat.'')) True True,
        emit ''update_user_list'' (Some (JList [JStr ''carol'', JStr ''bob''])) True True,
        emit ''registration_success'' (Some (JObj [(''history'', JList [])])) False True]"
  using register_rebinds_bound_connection [where cu = "[(''c1'', ''alice''), (''c2'', ''bob'')]" and sid = "''c1''"
      and old = "''alice''" and data = "payload_username ''carol''" and new = "''carol''"
      and b = store_down]
  by (simp add: world_defs user_list_def dict_values_def)

text \<open>
  C3, counterexample to the claim as stated: c1 is bound as alice, sends
  \<^verbatim>\<open>register_user\<close> with bob, and is bound as bob afterwards, with no disconnect between.
\<close>

theorem bound_rename_counterexample:
  "dict_get [(''c1'', ''alice'')] ''c1'' = Some ''alice'' \<and>
   dict_get (connected_users (handle_user_registration store_up ''c1'' (payload_username ''bob'')
       [(''c1'', ''alice'')])) ''c1'' = Some ''bob'' \<and>
   raised (handle_user_registration store_up ''c1'' (payload_username ''bob'')
       [(''c1'', ''alice'')]) = None"
  by (simp add: handler_defs world_defs)

text \<open>
  C4, the code at the failing input: c1 has no entry in the dictionary. Its \<^verbatim>\<open>typing\<close>
  event emits nothing, but its \<^verbatim>\<open>stop_typing\<close> event emits \<^verbatim>\<open>hide_typing\<close> as a broadcast
  without the sender, which with connections c1 and c2 on the transport reaches c2.
\<close>

theorem stop_typing_unregistered_broadcasts:
  "dict_get ([] :: users) ''c1'' = None \<and>
   emitted (handle_typing ''c1'' []) = [] \<and>
   emitted (handle_stop_typing ''c1'' []) = [emit ''hide_typing'' None True False] \<and>
   recipients {''c1'', ''c2''} ''c1'' (emit ''hide_typing'' None True False) = {''c2''}"
  by (simp add: handler_defs recipients_def emit_def)

text \<open>
  C5. A \<^verbatim>\<open>new_message\<close> from a connection bound to a (non-empty) name, with a message in
  the payload, whose \<^verbatim>\<open>post_message\<close> raises: the handler emits exactly one event, the
  system notice "Error: Could not send message.", not as a broadcast, so that its only
  recipient is the sender; the message itself is emitted to nobody; the dictionary is
  unchanged and nothing is raised.
\<close>

theorem relay_store_failure_notice_to_sender:
  assumes "dict_get cu sid = Some username" and "username \<noteq> []"
    and "data ''message'' = Some message_text"
    and "post_message b username message_text = RequestException"
  shows "emitted (handle_new_message b now sid data cu)
           = [emit ''receive_message''
                (Some (system_message ''Error: Could not send message.'')) False True] \<and>
         (\<forall>e \<in> set (emitted (handle_new_message b now sid data cu)).
            recipients room sid e = {sid}) \<and>
         calls (handle_new_message b now sid data cu) = [PostMessage username message_text] \<and>
         connected_users (handle_new_message b now sid data cu) = cu \<and>
         raised (handle_new_message b now sid data cu) = None"
  using assms
  by (simp add: handle_new_message_def Let_def recipients_def emit_def)

text \<open>C5, witness: alice on c1 sends "hi" while the store is down; c2 is connected too.\<close>

theorem relay_store_failure_notice_to_sender_witness:
  "dict_get [(''c1'', ''alice''), (''c2'', ''bob'')] ''c1'' = Some ''alice'' \<and>
   ''alice'' \<noteq> [] \<and>
   payload_message ''hi'' ''message'' = Some ''hi'' \<and>
   post_message store_down ''alice'' ''hi'' = RequestException \<and>
   emitted (handle_new_message store_down ''2024-05-01T12:00:00'' ''c1'' (payload_message ''hi'')
       [(''c1'', ''alice''), (''c2'', ''bob'')])
     = [emit ''receive_message''
          (Some (system_message ''Error: Could not send message.'')) False True] \<and>
   recipients {''c1'', ''c2''} ''c1''
     (emit ''receive_message''
        (Some (system_message ''Error: Could not send message.'')) False True) = {''c1''} \<and>
   connected_users (handle_new_message store_down ''2024-05-01T12:00:00'' ''c1''
       (payload_message ''hi'') [(''c1'', ''alice''), (''c2'', ''bob'')])
     = [(''c1'', ''alice''), (''c2'', ''bob'')]"
  using relay_store_failure_notice_to_sender [where cu = "[(''c1'', ''alice''), (''c2'', ''bob'')]" and sid = "''c1''"
      and username = "''alice''" and data = "payload_message ''hi''" and message_text = "''hi''"
      and b = store_down and now = "''2024-05-01T12:00:00''" and room = "{''c1'', ''c2''}"]
  by (simp add: world_defs)

text \<open>
  C6. A \<^verbatim>\<open>new_message\<close> from a connection with no entry in the dictionary: no call on the
  store, no emission, no exception, the dictionary unchanged.
\<close>

theorem relay_unbound_noop:
  assumes "dict_get cu sid = None"
  shows "handle_new_message b now sid data cu
           = \<lparr>connected_users = cu, emitted = [], calls = [], raised = None\<rparr>"
  using assms by (simp add: handle_new_message_def)

text \<open>C6, witness: c2, which never registered, sends "hi".\<close>

theorem relay_unbound_noop_witness:
  "dict_get [(''c1'', ''alice'')] ''c2'' = None \<and>
   handle_new_message store_up ''2024-05-01T12:00:00'' ''c2'' (payload_message ''hi'')
       [(''c1'', ''alice'')]
     = \<lparr>connected_users = [(''c1'', ''alice'')], emitted = [], calls = [], raised = None\<rparr>"
  using relay_unbound_noop [where cu = "[(''c1'', ''alice'')]" and sid = "''c2''" and b = store_up
      and now = "''2024-05-01T12:00:00''" and data = "payload_message ''hi''"]
  by simp

text \<open>
  The soft failure that C7 describes is the intended behaviour of lines 283 to 289, read
  as a \<^verbatim>\<open>try: ... except ...:\<close>: when \<^verbatim>\<open>get_messages\<close> raises, the join notice and the user
  list go to all and \<^verbatim>\<open>registration_success\<close> with the empty history goes to the
  registering connection alone, and no exception leaves the handler. The file as
  written does not reach it: its \<^verbatim>\<open>try {\<close> is a syntax error, so this lemma speaks of the
  reading and not of the code.
\<close>

lemma history_failure_as_intended:
  assumes "data ''username'' = Some username" and "get_messages b = RequestException"
  shows "emitted (handle_user_registration b sid data cu)
           = [emit ''receive_message''
                (Some (system_message (username @ '' has joined the chat.''))) True True,
              emit ''update_user_list'' (Some (user_list (dict_setitem cu sid username)))
                True True,
              emit ''registration_success'' (Some (JObj [(''history'', JList [])]))
                False True] \<and>
         recipients room sid
             (emit ''registration_success'' (Some (JObj [(''history'', JList [])])) False True)
           = {sid} \<and>
         connected_users (handle_user_registration b sid data cu)
           = dict_setitem cu sid username \<and>
         raised (handle_user_registration b sid data cu) = None"
  using assms
  by (simp add: handle_user_registration_def Let_def recipients_def emit_def)

text \<open>
  C8, as the code has it. A \<^verbatim>\<open>disconnect\<close> from a connection with no entry changes
  nothing and emits nothing. From a connection bound to a non-empty name, the entry is
  removed first, and then the leave notice and the list of the names that remain are
  emitted, both as plain broadcasts: their recipients are all the connections the
  transport holds, whatever that set is (the handler excludes nobody itself). With one
  entry per connection, the connection has no entry afterwards.
\<close>

theorem disconnect_removes_and_broadcasts:
  "(dict_get cu sid = None \<longrightarrow>
      handle_disconnect sid cu
        = \<lparr>connected_users = cu, emitted = [], calls = [], raised = None\<rparr>) \<and>
   (dict_get cu sid = Some username \<and> username \<noteq> [] \<longrightarrow>
      connected_users (handle_disconnect sid cu) = dict_delitem cu sid \<and>
      emitted (handle_disconnect sid cu)
        = [emit ''receive_message''
             (Some (system_message (username @ '' has left the chat.''))) True True,
           emit ''update_user_list'' (Some (user_list (dict_delitem cu sid))) True True] \<and>
      (\<forall>e \<in> set (emitted (handle_disconnect sid cu)). recipients room sid e = room) \<and>
      raised (handle_disconnect sid cu) = None) \<and>
   (distinct (dict_keys cu) \<longrightarrow>
      dict_get (connected_users (handle_disconnect sid cu)) sid = None)"
  by (simp add: handle_disconnect_def dict_pop_def dict_delitem_absent dict_get_delitem_same
      recipients_def emit_def)

text \<open>
  C8, witness: c2 disconnects, once without an entry and once bound as bob next to c1
  (alice), the transport holding c1 only.
\<close>

theorem disconnect_removes_and_broadcasts_witness:
  "dict_get [(''c1'', ''alice'')] ''c2'' = None \<and>
   handle_disconnect ''c2'' [(''c1'', ''alice'')]
     = \<lparr>connected_users = [(''c1'', ''alice'')], emitted = [], calls = [], raised = None\<rparr> \<and>
   dict_get [(''c1'', ''alice''), (''c2'', ''bob'')] ''c2'' = Some ''bob'' \<and> ''bob'' \<noteq> [] \<and>
   distinct (dict_keys [(''c1'', ''alice''), (''c2'', ''bob'')]) \<and>
   connected_users (handle_disconnect ''c2'' [(''c1'', ''alice''), (''c2'', ''bob'')])
     = [(''c1'', ''alice'')] \<and>
   emitted (handle_disconnect ''c2'' [(''c1'', ''alice''), (''c2'', ''bob'')])
     = [emit ''receive_message'' (Some (system_message ''bob has left the chat.'')) True True,
        emit ''update_user_list'' (Some (JList [JStr ''alice''])) True True] \<and>
   recipients {''c1''} ''c2''
       (emit ''update_user_list'' (Some (JList [JStr ''alice''])) True True) = {''c1''} \<and>
   dict_get (connected_users (handle_disconnect ''c2'' [(''c1'', ''alice''), (''c2'', ''bob'')]))
       ''c2'' = None"
  using disconnect_removes_and_broadcasts [where cu = "[(''c1'', ''alice'')]" and sid = "''c2''"]
    disconnect_removes_and_broadcasts [where cu = "[(''c1'', ''alice''), (''c2'', ''bob'')]" and sid = "''c2''"
      and username = "''bob''" and room = "{''c1''}"]
  by (simp add: dict_keys_def user_list_def dict_values_def)

text \<open>
  C8, counterexample to the claim as stated: c1 and c2 are both alice and c1
  disconnects. The user list sent afterwards still contains alice.
\<close>

theorem disconnect_name_still_listed_counterexample:
  "dict_get [(''c1'', ''alice''), (''c2'', ''alice'')] ''c1'' = Some ''alice'' \<and>
   emitted (handle_disconnect ''c1'' [(''c1'', ''alice''), (''c2'', ''alice'')])
     = [emit ''receive_message'' (Some (system_message ''alice has left the chat.'')) True True,
        emit ''update_user_list'' (Some (JList [JStr ''alice''])) True True]"
  by (simp add: handler_defs user_list_def dict_values_def)

text \<open>
  C9. \<^verbatim>\<open>connect\<close>, \<^verbatim>\<open>new_message\<close>, \<^verbatim>\<open>typing\<close> and \<^verbatim>\<open>stop_typing\<close> leave the dictionary as it
  was; \<^verbatim>\<open>register_user\<close> and \<^verbatim>\<open>disconnect\<close> leave the entry of every connection other
  than the caller as it was.
\<close>

theorem handlers_frame:
  "connected_users (handle_connect sid cu) = cu \<and>
   connected_users (handle_new_message b now sid data cu) = cu \<and>
   connected_users (handle_typing sid cu) = cu \<and>
   connected_users (handle_stop_typing sid cu) = cu \<and>
   (other \<noteq> sid \<longrightarrow>
      dict_get (connected_users (handle_user_registration b sid data cu)) other
        = dict_get cu other \<and>
      dict_get (connected_users (handle_disconnect sid cu)) other = dict_get cu other)"
  by (simp add: users_after dict_get_setitem dict_get_delitem_other split: option.splits)

text \<open>C9, witness: c1 acts, and bob stays bound to c2.\<close>

theorem handlers_frame_witness:
  "''c2'' \<noteq> ''c1'' \<and>
   dict_get (connected_users (handle_user_registration store_up ''c1''
       (payload_username ''carol'') [(''c1'', ''alice''), (''c2'', ''bob'')])) ''c2'' = Some ''bob'' \<and>
   dict_get (connected_users (handle_disconnect ''c1'' [(''c1'', ''alice''), (''c2'', ''bob'')]))
       ''c2'' = Some ''bob'' \<and>
   connected_users (handle_new_message store_up ''2024-05-01T12:00:00'' ''c1''
       (payload_message ''hi'') [(''c1'', ''alice''), (''c2'', ''bob'')])
     = [(''c1'', ''alice''), (''c2'', ''bob'')]"
  using handlers_frame [where other = "''c2''" and sid = "''c1''" and b = store_up
      and data = "payload_username ''carol''" and cu = "[(''c1'', ''alice''), (''c2'', ''bob'')]"]
    handlers_frame [where sid = "''c1''" and b = store_up and now = "''2024-05-01T12:00:00''"
      and data = "payload_message ''hi''" and cu = "[(''c1'', ''alice''), (''c2'', ''bob'')]"]
  by simp

text \<open>
  C10, as the code has it. A \<^verbatim>\<open>register_user\<close> payload (an object) without \<^verbatim>\<open>'username'\<close>,
  and a \<^verbatim>\<open>new_message\<close> payload without \<^verbatim>\<open>'message'\<close> from a connection bound to a
  non-empty name, raise \<^verbatim>\<open>KeyError\<close> with the dictionary unchanged, no call on the store
  and no emission.
\<close>

theorem missing_key_raises_first:
  "(data ''username'' = None \<longrightarrow>
      handle_user_registration b sid data cu
        = \<lparr>connected_users = cu, emitted = [], calls = [],
           raised = Some (KeyError ''username'')\<rparr>) \<and>
   (truthy (dict_get cu sid) \<and> data ''message'' = None \<longrightarrow>
      handle_new_message b now sid data cu
        = \<lparr>connected_users = cu, emitted = [], calls = [],
           raised = Some (KeyError ''message'')\<rparr>)"
  by (simp add: handle_user_registration_def handle_new_message_def)

text \<open>C10, witness: c2 registers with a message payload; alice sends a username payload.\<close>

theorem missing_key_raises_first_witness:
  "payload_message ''hi'' ''username'' = None \<and>
   handle_user_registration store_up ''c2'' (payload_message ''hi'') [(''c1'', ''alice'')]
     = \<lparr>connected_users = [(''c1'', ''alice'')], emitted = [], calls = [],
        raised = Some (KeyError ''username'')\<rparr> \<and>
   truthy (dict_get [(''c1'', ''alice'')] ''c1'') \<and>
   payload_username ''alice'' ''message'' = None \<and>
   handle_new_message store_up ''2024-05-01T12:00:00'' ''c1'' (payload_username ''alice'')
       [(''c1'', ''alice'')]
     = \<lparr>connected_users = [(''c1'', ''alice'')], emitted = [], calls = [],
        raised = Some (KeyError ''message'')\<rparr>"
  using missing_key_raises_first [where data = "payload_message ''hi''" and b = store_up and sid = "''c2''"
      and cu = "[(''c1'', ''alice'')]"]
    missing_key_raises_first [where data = "payload_username ''alice''" and b = store_up and sid = "''c1''"
      and cu = "[(''c1'', ''alice'')]" and now = "''2024-05-01T12:00:00''"]
  by (simp add: payload_username_def payload_message_def)

text \<open>
  C10, counterexample to the claim as stated: c1 registers with the empty name, which
  the handler accepts and stores, and then sends \<^verbatim>\<open>new_message\<close> without \<^verbatim>\<open>'message'\<close>. The
  test \<^verbatim>\<open>if username:\<close> is false for the empty name, the lookup is never reached, and
  no error is raised.
\<close>

theorem empty_name_missing_key_counterexample:
  "connected_users (handle_user_registration store_up ''c1'' (payload_username '''') [])
     = [(''c1'', '''')] \<and>
   dict_get [(''c1'', '''')] ''c1'' = Some '''' \<and>
   payload_username ''x'' ''message'' = None \<and>
   handle_new_message store_up ''2024-05-01T12:00:00'' ''c1'' (payload_username ''x'')
       [(''c1'', '''')]
     = \<lparr>connected_users = [(''c1'', '''')], emitted = [], calls = [], raised = None\<rparr>"
  by (simp add: handler_defs world_defs)

end
